theory Spec2Isabelle
  imports Main "HOL-Library.Word" "HOL-Library.AList"
begin

section \<open>Data model\<close>

text \<open>
  The program is one Go file, \<open>main.go\<close>: five HTTP handlers over a single MongoDB
  collection of user documents and a startup sequence that seeds and migrates that
  collection. The collection lives in the store, so the model passes it explicitly:
  every operation takes the collection and returns the new one.

  An \<open>ObjectID\<close> is the driver's 12-byte identifier, here a 96-bit word; the zero word is
  \<open>primitive.NilObjectID\<close>. An instant is a reading of the wall clock, an integer
  counting nanoseconds as Go's \<open>time.Time\<close> does; its zero value is the first instant
  of year 1. The store keeps a date as a count of milliseconds: \<open>toDateTime\<close> is what
  marshalling makes of an instant, dropping what is below a millisecond, and
  \<open>fromDateTime\<close> is the instant that decoding gives back, the start of that
  millisecond.
\<close>

type_synonym ObjectID = "96 word"
type_synonym instant = int

definition NilObjectID :: ObjectID where
  "NilObjectID = 0"

definition zeroTime :: instant where
  "zeroTime = - 62135596800000000000"

definition toDateTime :: "instant \<Rightarrow> int" where
  "toDateTime t = t div 1000000"

definition fromDateTime :: "int \<Rightarrow> instant" where
  "fromDateTime ms = ms * 1000000"

text \<open>The struct \<open>User\<close> (lines 34 to 42 of the source).\<close>

record User =
  ID :: ObjectID
  Name :: string
  Email :: string
  Age :: int
  CreatedAt :: instant
  UpdatedAt :: instant
  Version :: int

definition zeroUser :: User where
  "zeroUser = \<lparr>ID = NilObjectID, Name = [], Email = [], Age = 0,
     CreatedAt = zeroTime, UpdatedAt = zeroTime, Version = 0\<rparr>"

text \<open>
  Every error value the handlers can meet. \<open>ErrInvalidHex\<close> comes from parsing an
  identifier, \<open>SyntaxError\<close> and \<open>UnmarshalTypeError\<close> from decoding a JSON body,
  \<open>ErrNoDocuments\<close> from a lookup that matched nothing, \<open>BSONDecodeError\<close> from decoding
  a stored document into the struct, \<open>DuplicateKeyError\<close> from inserting an identifier
  that is taken, and \<open>CommandError\<close> stands for any failure of the store call itself
  (network, timeout, server).
\<close>

datatype err =
    ErrInvalidHex
  | SyntaxError
  | UnmarshalTypeError
  | ErrNoDocuments
  | BSONDecodeError
  | DuplicateKeyError
  | CommandError

text \<open>
  A stored document is an ordered list of named values. The kinds of value are the four
  the program writes and one more, a boolean, which stands for a value written by another
  client.
\<close>

datatype bson =
    BObjectID ObjectID
  | BString string
  | BInt int
  | BDateTime int
  | BBool bool

type_synonym document = "(string \<times> bson) list"
type_synonym collection = "document list"

subsection \<open>Identifiers in hexadecimal\<close>

text \<open>
  \<open>primitive.ObjectIDFromHex\<close> accepts exactly 24 hexadecimal digits of either case and
  returns the zero identifier together with an error otherwise. \<open>ObjectID.Hex\<close> writes
  24 lower-case digits.
\<close>

definition fromHexChar :: "char \<Rightarrow> nat option" where
  "fromHexChar c =
     (let n = (of_char c :: nat) in
      if 48 \<le> n \<and> n \<le> 57 then Some (n - 48)
      else if 97 \<le> n \<and> n \<le> 102 then Some (n - 87)
      else if 65 \<le> n \<and> n \<le> 70 then Some (n - 55)
      else None)"

fun hex_decode :: "nat \<Rightarrow> string \<Rightarrow> nat option" where
  "hex_decode acc [] = Some acc"
| "hex_decode acc (c # cs) =
     (case fromHexChar c of
        None \<Rightarrow> None
      | Some d \<Rightarrow> hex_decode (16 * acc + d) cs)"

definition ObjectIDFromHex :: "string \<Rightarrow> ObjectID \<times> err option" where
  "ObjectIDFromHex s =
     (if length s \<noteq> 24 then (NilObjectID, Some ErrInvalidHex)
      else case hex_decode 0 s of
        None \<Rightarrow> (NilObjectID, Some ErrInvalidHex)
      | Some n \<Rightarrow> (word_of_nat n, None))"

definition hextable :: string where
  "hextable = ''0123456789abcdef''"

definition hexdigit :: "nat \<Rightarrow> char" where
  "hexdigit d = hextable ! d"

fun hex_encode :: "nat \<Rightarrow> nat \<Rightarrow> string" where
  "hex_encode 0 n = []"
| "hex_encode (Suc k) n = hex_encode k (n div 16) @ [hexdigit (n mod 16)]"

definition Hex :: "ObjectID \<Rightarrow> string" where
  "Hex oid = hex_encode 24 (unat oid)"

subsection \<open>The struct as a stored document\<close>

text \<open>
  The \<open>bson\<close> tags of the struct fix the stored form: the keys \<open>_id\<close>, \<open>name\<close>,
  \<open>email\<close>, \<open>age\<close>, \<open>created_at\<close>, \<open>updated_at\<close>, \<open>version\<close>, in this order, where
  \<open>_id\<close> and \<open>age\<close> carry \<open>omitempty\<close> and are left out when they hold the zero value.
\<close>

definition marshal :: "User \<Rightarrow> document" where
  "marshal u =
     (if ID u = NilObjectID then [] else [(''_id'', BObjectID (ID u))]) @
     [(''name'', BString (Name u)), (''email'', BString (Email u))] @
     (if Age u = 0 then [] else [(''age'', BInt (Age u))]) @
     [(''created_at'', BDateTime (toDateTime (CreatedAt u))),
      (''updated_at'', BDateTime (toDateTime (UpdatedAt u))),
      (''version'', BInt (Version u))]"

text \<open>
  Both codecs of the program, the driver's for stored documents and \<open>encoding/json\<close>
  for request bodies, find the struct field for a key without regard to the case of its
  letters. \<open>toLower\<close> gives the code of a character's lower-case form and \<open>foldEq\<close>
  compares a key with a field's name.
\<close>

definition toLower :: "char \<Rightarrow> nat" where
  "toLower c =
     (let n = (of_char c :: nat) in
      if 65 \<le> n \<and> n \<le> 90 then n + 32 else n)"

definition foldEq :: "string \<Rightarrow> string \<Rightarrow> bool" where
  "foldEq k name = (map toLower k = map toLower name)"

text \<open>
  Decoding walks the document's elements in order. An element whose key names a field is
  decoded from the kind of value the program itself writes for that field; on a value of
  another kind decoding stops with an error and the struct keeps what was set so far. An
  element with any other key is passed over. The driver also converts a few values of
  other kinds (a boolean for an integer field, an identifier for a string field); the
  model has them fail, and nothing proved below rests on such a value: the one ill-typed
  value of the examples is a boolean \<open>name\<close>, which the driver rejects too.
\<close>

definition decode_field :: "User \<Rightarrow> string \<times> bson \<Rightarrow> err + User" where
  "decode_field u kv =
     (let k = fst kv; v = snd kv in
      if foldEq k ''_id'' then
        (case v of BObjectID i \<Rightarrow> Inr (u\<lparr>ID := i\<rparr>) | _ \<Rightarrow> Inl BSONDecodeError)
      else if foldEq k ''name'' then
        (case v of BString s \<Rightarrow> Inr (u\<lparr>Name := s\<rparr>) | _ \<Rightarrow> Inl BSONDecodeError)
      else if foldEq k ''email'' then
        (case v of BString s \<Rightarrow> Inr (u\<lparr>Email := s\<rparr>) | _ \<Rightarrow> Inl BSONDecodeError)
      else if foldEq k ''age'' then
        (case v of BInt n \<Rightarrow> Inr (u\<lparr>Age := n\<rparr>) | _ \<Rightarrow> Inl BSONDecodeError)
      else if foldEq k ''created_at'' then
        (case v of BDateTime t \<Rightarrow> Inr (u\<lparr>CreatedAt := fromDateTime t\<rparr>) | _ \<Rightarrow> Inl BSONDecodeError)
      else if foldEq k ''updated_at'' then
        (case v of BDateTime t \<Rightarrow> Inr (u\<lparr>UpdatedAt := fromDateTime t\<rparr>) | _ \<Rightarrow> Inl BSONDecodeError)
      else if foldEq k ''version'' then
        (case v of BInt n \<Rightarrow> Inr (u\<lparr>Version := n\<rparr>) | _ \<Rightarrow> Inl BSONDecodeError)
      else Inr u)"

fun decode_fields :: "User \<Rightarrow> document \<Rightarrow> User \<times> err option" where
  "decode_fields u [] = (u, None)"
| "decode_fields u (kv # kvs) =
     (case decode_field u kv of
        Inl e \<Rightarrow> (u, Some e)
      | Inr u' \<Rightarrow> decode_fields u' kvs)"

text \<open>
  \<open>Decode\<close> is what \<open>cursor.Decode(&user)\<close> and \<open>SingleResult.Decode(&user)\<close> do to a
  freshly declared \<open>user\<close>: the struct as decoding left it, and the error if any.
\<close>

definition Decode :: "document \<Rightarrow> User \<times> err option" where
  "Decode d = decode_fields zeroUser d"

section \<open>The store\<close>

text \<open>
  The collection is the list of its documents in the store's natural order, the order of
  insertion. Each call on it takes \<open>fault\<close>, the failure of the call itself if there is
  one; without a fault the call does what the MongoDB driver documents. The filter
  \<open>bson.M{"_id": objID}\<close> matches the documents whose \<open>_id\<close> is that identifier.
\<close>

definition matches :: "ObjectID \<Rightarrow> document \<Rightarrow> bool" where
  "matches i d = (map_of d ''_id'' = Some (BObjectID i))"

text \<open>
  \<open>InsertOne\<close> gives a document that has no \<open>_id\<close> a generated one, \<open>fresh\<close>, in front
  of its other elements, refuses an \<open>_id\<close> that a stored document already has, and
  otherwise appends the document and returns its \<open>_id\<close> as \<open>InsertedID\<close>.
\<close>

definition ensureID :: "ObjectID \<Rightarrow> document \<Rightarrow> document \<times> bson" where
  "ensureID fresh d =
     (case map_of d ''_id'' of
        None \<Rightarrow> ((''_id'', BObjectID fresh) # d, BObjectID fresh)
      | Some v \<Rightarrow> (d, v))"

definition InsertOne ::
  "err option \<Rightarrow> ObjectID \<Rightarrow> collection \<Rightarrow> document \<Rightarrow> collection \<times> (err + bson)" where
  "InsertOne fault fresh c d =
     (case fault of
        Some e \<Rightarrow> (c, Inl e)
      | None \<Rightarrow>
          (let d' = fst (ensureID fresh d); v = snd (ensureID fresh d) in
           if list_ex (\<lambda>x. map_of x ''_id'' = Some v) c
           then (c, Inl DuplicateKeyError)
           else (c @ [d'], Inr v)))"

text \<open>
  \<open>FindOne\<close> returns the first matching document, or \<open>ErrNoDocuments\<close>; the
  \<open>SingleResult\<close> it returns hands its error to \<open>Decode\<close>.
\<close>

definition FindOne :: "err option \<Rightarrow> collection \<Rightarrow> ObjectID \<Rightarrow> err + document" where
  "FindOne fault c i =
     (case fault of
        Some e \<Rightarrow> Inl e
      | None \<Rightarrow>
          (case find (matches i) c of
             None \<Rightarrow> Inl ErrNoDocuments
           | Some d \<Rightarrow> Inr d))"

definition SingleResult_Decode :: "err + document \<Rightarrow> User \<times> err option" where
  "SingleResult_Decode r =
     (case r of
        Inl e \<Rightarrow> (zeroUser, Some e)
      | Inr d \<Rightarrow> Decode d)"

text \<open>
  The operator \<open>$set\<close> replaces the value of a field in place, or adds the field at the
  end of the document when it has none. \<open>UpdateOne\<close> applies it to the first matching
  document and \<open>UpdateMany\<close>, whose filter here is empty, to every document. Both
  return the number of documents matched, and neither treats zero matches as an error.
\<close>

definition set_fields :: "(string \<times> bson) list \<Rightarrow> document \<Rightarrow> document" where
  "set_fields kvs d = fold (\<lambda>kv. AList.update (fst kv) (snd kv)) kvs d"

fun update_first :: "(document \<Rightarrow> bool) \<Rightarrow> (document \<Rightarrow> document) \<Rightarrow> collection \<Rightarrow> collection \<times> nat" where
  "update_first P f [] = ([], 0)"
| "update_first P f (d # ds) =
     (if P d then (f d # ds, 1)
      else (let r = update_first P f ds in (d # fst r, snd r)))"

definition UpdateOne ::
  "err option \<Rightarrow> collection \<Rightarrow> ObjectID \<Rightarrow> (string \<times> bson) list \<Rightarrow> collection \<times> (err + nat)" where
  "UpdateOne fault c i kvs =
     (case fault of
        Some e \<Rightarrow> (c, Inl e)
      | None \<Rightarrow> (let r = update_first (matches i) (set_fields kvs) c in (fst r, Inr (snd r))))"

definition UpdateMany ::
  "err option \<Rightarrow> collection \<Rightarrow> (string \<times> bson) list \<Rightarrow> collection \<times> (err + nat)" where
  "UpdateMany fault c kvs =
     (case fault of
        Some e \<Rightarrow> (c, Inl e)
      | None \<Rightarrow> (map (set_fields kvs) c, Inr (length c)))"

text \<open>
  \<open>DeleteOne\<close> removes the first matching document and returns the number removed,
  zero when nothing matched, which is no error either.
\<close>

fun delete_first :: "(document \<Rightarrow> bool) \<Rightarrow> collection \<Rightarrow> collection \<times> nat" where
  "delete_first P [] = ([], 0)"
| "delete_first P (d # ds) =
     (if P d then (ds, 1)
      else (let r = delete_first P ds in (d # fst r, snd r)))"

definition DeleteOne ::
  "err option \<Rightarrow> collection \<Rightarrow> ObjectID \<Rightarrow> collection \<times> (err + nat)" where
  "DeleteOne fault c i =
     (case fault of
        Some e \<Rightarrow> (c, Inl e)
      | None \<Rightarrow> (let r = delete_first (matches i) c in (fst r, Inr (snd r))))"

text \<open>\<open>Find\<close> with the empty filter opens a cursor over every document.\<close>

definition Find :: "err option \<Rightarrow> collection \<Rightarrow> err + document list" where
  "Find fault c = (case fault of Some e \<Rightarrow> Inl e | None \<Rightarrow> Inr c)"

section \<open>Requests and responses\<close>

text \<open>
  A request body is the JSON value it holds, or \<open>None\<close> when it is not well-formed
  JSON. Numbers are the integers; fractions play no part in this program.
\<close>

datatype json =
    JNull
  | JBool bool
  | JNumber int
  | JString string
  | JArray "json list"
  | JObject "(string \<times> json) list"

text \<open>
  A request carries the query parameter \<open>id\<close> (empty when absent), its body and the
  instant it was received. The environment of one request is the fault of its single
  store call, the identifier the driver would generate, and the instant the wall clock
  shows when the handler reads it; \<open>time_Now\<close> is that reading.
\<close>

record request =
  query_id :: string
  body :: "json option"
  received :: instant

record env =
  fault :: "err option"
  fresh :: ObjectID
  clock :: instant

definition time_Now :: "env \<Rightarrow> instant" where
  "time_Now e = clock e"

datatype payload =
    NoBody
  | ErrorText err
  | InsertOneResult bson
  | UserJSON User
  | UsersJSON "User list"

record response =
  status :: nat
  payload :: payload

subsection \<open>Decoding a JSON body\<close>

text \<open>
  \<open>encoding/json\<close> matches an object's keys with the struct's field names without
  regard to case, leaves a field alone on \<open>null\<close>, passes over unknown keys and reports
  a value of the wrong kind as an error. A body that is \<open>null\<close> decodes to the
  untouched struct; any other value that is not an object is an error.
\<close>

definition set_string :: "string \<Rightarrow> json \<Rightarrow> err + string" where
  "set_string cur j =
     (case j of
        JString s \<Rightarrow> Inr s
      | JNull \<Rightarrow> Inr cur
      | _ \<Rightarrow> Inl UnmarshalTypeError)"

definition set_int :: "int \<Rightarrow> json \<Rightarrow> err + int" where
  "set_int cur j =
     (case j of
        JNumber n \<Rightarrow>
          if - (2 ^ 63) \<le> n \<and> n < 2 ^ 63 then Inr n else Inl UnmarshalTypeError
      | JNull \<Rightarrow> Inr cur
      | _ \<Rightarrow> Inl UnmarshalTypeError)"

text \<open>
  The update handler decodes into a struct of one field, \<open>Name\<close> with the tag
  \<open>json:"name"\<close>; the model returns that field.
\<close>

fun decode_name_members :: "string \<Rightarrow> (string \<times> json) list \<Rightarrow> err + string" where
  "decode_name_members cur [] = Inr cur"
| "decode_name_members cur (kv # ms) =
     (if foldEq (fst kv) ''name'' then
        (case set_string cur (snd kv) of
           Inl e \<Rightarrow> Inl e
         | Inr s \<Rightarrow> decode_name_members s ms)
      else decode_name_members cur ms)"

definition decode_updateData :: "json option \<Rightarrow> err + string" where
  "decode_updateData b =
     (case b of
        None \<Rightarrow> Inl SyntaxError
      | Some JNull \<Rightarrow> Inr []
      | Some (JObject ms) \<Rightarrow> decode_name_members [] ms
      | Some _ \<Rightarrow> Inl UnmarshalTypeError)"

text \<open>
  The create handler decodes into \<open>User\<close>, which has no \<open>json\<close> tags, so the keys are
  the field names. The fields \<open>ID\<close>, \<open>CreatedAt\<close> and \<open>UpdatedAt\<close> have types that
  bring their own \<open>UnmarshalJSON\<close>; these two functions belong to the driver and to the
  \<open>time\<close> package and are parameters here: each takes the field's current value and
  the JSON value and returns the new value or an error.
\<close>

type_synonym 'a unmarshaler = "'a \<Rightarrow> json \<Rightarrow> err + 'a"

definition decode_member ::
  "ObjectID unmarshaler \<Rightarrow> instant unmarshaler \<Rightarrow> User \<Rightarrow> string \<times> json \<Rightarrow> err + User" where
  "decode_member um_id um_time u kv =
     (let k = fst kv; v = snd kv in
      if foldEq k ''ID'' then
        (case um_id (ID u) v of Inl e \<Rightarrow> Inl e | Inr i \<Rightarrow> Inr (u\<lparr>ID := i\<rparr>))
      else if foldEq k ''Name'' then
        (case set_string (Name u) v of Inl e \<Rightarrow> Inl e | Inr s \<Rightarrow> Inr (u\<lparr>Name := s\<rparr>))
      else if foldEq k ''Email'' then
        (case set_string (Email u) v of Inl e \<Rightarrow> Inl e | Inr s \<Rightarrow> Inr (u\<lparr>Email := s\<rparr>))
      else if foldEq k ''Age'' then
        (case set_int (Age u) v of Inl e \<Rightarrow> Inl e | Inr n \<Rightarrow> Inr (u\<lparr>Age := n\<rparr>))
      else if foldEq k ''CreatedAt'' then
        (case um_time (CreatedAt u) v of Inl e \<Rightarrow> Inl e | Inr t \<Rightarrow> Inr (u\<lparr>CreatedAt := t\<rparr>))
      else if foldEq k ''UpdatedAt'' then
        (case um_time (UpdatedAt u) v of Inl e \<Rightarrow> Inl e | Inr t \<Rightarrow> Inr (u\<lparr>UpdatedAt := t\<rparr>))
      else if foldEq k ''Version'' then
        (case set_int (Version u) v of Inl e \<Rightarrow> Inl e | Inr n \<Rightarrow> Inr (u\<lparr>Version := n\<rparr>))
      else Inr u)"

fun decode_members ::
  "ObjectID unmarshaler \<Rightarrow> instant unmarshaler \<Rightarrow> User \<Rightarrow> (string \<times> json) list \<Rightarrow> err + User" where
  "decode_members um_id um_time u [] = Inr u"
| "decode_members um_id um_time u (kv # ms) =
     (case decode_member um_id um_time u kv of
        Inl e \<Rightarrow> Inl e
      | Inr u' \<Rightarrow> decode_members um_id um_time u' ms)"

definition decode_User ::
  "ObjectID unmarshaler \<Rightarrow> instant unmarshaler \<Rightarrow> json option \<Rightarrow> err + User" where
  "decode_User um_id um_time b =
     (case b of
        None \<Rightarrow> Inl SyntaxError
      | Some JNull \<Rightarrow> Inr zeroUser
      | Some (JObject ms) \<Rightarrow> decode_members um_id um_time zeroUser ms
      | Some _ \<Rightarrow> Inl UnmarshalTypeError)"

section \<open>The handlers\<close>

text \<open>
  Each handler makes one store call. \<open>http.Error\<close> answers with the given status and
  the error's text; \<open>json.NewEncoder(w).Encode\<close> answers 200 with the value;
  \<open>w.WriteHeader(http.StatusNoContent)\<close> answers 204 with nothing.
\<close>

definition createUser ::
  "ObjectID unmarshaler \<Rightarrow> instant unmarshaler \<Rightarrow> env \<Rightarrow> collection \<Rightarrow> request
     \<Rightarrow> collection \<times> response" where
  "createUser um_id um_time e c r =
     (case decode_User um_id um_time (body r) of
        Inl er \<Rightarrow> (c, \<lparr>status = 400, payload = ErrorText er\<rparr>)
      | Inr newUser \<Rightarrow>
          (let newUser1 = newUser\<lparr>CreatedAt := time_Now e\<rparr>;
               newUser2 = newUser1\<lparr>UpdatedAt := CreatedAt newUser1\<rparr>;
               ins = InsertOne (fault e) (fresh e) c (marshal newUser2)
           in case snd ins of
                Inl er \<Rightarrow> (fst ins, \<lparr>status = 500, payload = ErrorText er\<rparr>)
              | Inr v \<Rightarrow> (fst ins, \<lparr>status = 200, payload = InsertOneResult v\<rparr>)))"

definition getUserByID :: "env \<Rightarrow> collection \<Rightarrow> request \<Rightarrow> response" where
  "getUserByID e c r =
     (let objID = fst (ObjectIDFromHex (query_id r));
          res = SingleResult_Decode (FindOne (fault e) c objID)
      in case snd res of
           Some er \<Rightarrow> \<lparr>status = 404, payload = ErrorText er\<rparr>
         | None \<Rightarrow> \<lparr>status = 200, payload = UserJSON (fst res)\<rparr>)"

definition updateUser :: "env \<Rightarrow> collection \<Rightarrow> request \<Rightarrow> collection \<times> response" where
  "updateUser e c r =
     (let objID = fst (ObjectIDFromHex (query_id r)) in
      case decode_updateData (body r) of
        Inl er \<Rightarrow> (c, \<lparr>status = 400, payload = ErrorText er\<rparr>)
      | Inr name \<Rightarrow>
          (let upd = UpdateOne (fault e) c objID
                       [(''name'', BString name), (''updated_at'', BDateTime (toDateTime (time_Now e)))]
           in case snd upd of
                Inl er \<Rightarrow> (fst upd, \<lparr>status = 500, payload = ErrorText er\<rparr>)
              | Inr n \<Rightarrow> (fst upd, \<lparr>status = 204, payload = NoBody\<rparr>)))"

definition deleteUser :: "env \<Rightarrow> collection \<Rightarrow> request \<Rightarrow> collection \<times> response" where
  "deleteUser e c r =
     (let objID = fst (ObjectIDFromHex (query_id r));
          del = DeleteOne (fault e) c objID
      in case snd del of
           Inl er \<Rightarrow> (fst del, \<lparr>status = 500, payload = ErrorText er\<rparr>)
         | Inr n \<Rightarrow> (fst del, \<lparr>status = 204, payload = NoBody\<rparr>))"

text \<open>
  The loop of \<open>getAllUsers\<close>: for each document of the cursor a fresh \<open>user\<close> is
  declared, decoded into with the error dropped, and appended.
\<close>

fun cursor_loop :: "document list \<Rightarrow> User list \<Rightarrow> User list" where
  "cursor_loop [] users = users"
| "cursor_loop (d # ds) users = cursor_loop ds (users @ [fst (Decode d)])"

definition getAllUsers :: "env \<Rightarrow> collection \<Rightarrow> request \<Rightarrow> response" where
  "getAllUsers e c r =
     (case Find (fault e) c of
        Inl er \<Rightarrow> \<lparr>status = 500, payload = ErrorText er\<rparr>
      | Inr cursor \<Rightarrow> \<lparr>status = 200, payload = UsersJSON (cursor_loop cursor [])\<rparr>)"

section \<open>The startup sequence\<close>

text \<open>
  \<open>createUsersCollection\<close> inserts the sample user; it reads the clock twice, once for
  each timestamp. \<open>addAgeField\<close> sets \<open>age\<close> to 0 in every document. Both return the
  store's error. \<open>main\<close> runs the two, inserts an example user and goes on to serve;
  it returns at the first error. The model of \<open>main\<close> ends where the routes are
  registered and gives the error it stopped at, if any.
\<close>

definition createUsersCollection ::
  "err option \<Rightarrow> ObjectID \<Rightarrow> instant \<Rightarrow> instant \<Rightarrow> collection \<Rightarrow> collection \<times> err option" where
  "createUsersCollection flt gen t1 t2 c =
     (let ins = InsertOne flt gen c
                  (marshal \<lparr>ID = NilObjectID, Name = ''John Doe'',
                     Email = ''john.doe@example.com'', Age = 0,
                     CreatedAt = t1, UpdatedAt = t2, Version = 1\<rparr>)
      in (fst ins, case snd ins of Inl er \<Rightarrow> Some er | Inr v \<Rightarrow> None))"

definition addAgeField :: "err option \<Rightarrow> collection \<Rightarrow> collection \<times> err option" where
  "addAgeField flt c =
     (let upd = UpdateMany flt c [(''age'', BInt 0)]
      in (fst upd, case snd upd of Inl er \<Rightarrow> Some er | Inr n \<Rightarrow> None))"

record boot =
  seed_fault :: "err option"
  seed_id :: ObjectID
  seed_created :: instant
  seed_updated :: instant
  backfill_fault :: "err option"
  example_fault :: "err option"
  example_id :: ObjectID
  example_created :: instant
  example_updated :: instant

definition main :: "boot \<Rightarrow> collection \<Rightarrow> collection \<times> err option" where
  "main b c =
     (let s1 = createUsersCollection (seed_fault b) (seed_id b)
                 (seed_created b) (seed_updated b) c
      in case snd s1 of
           Some er \<Rightarrow> (fst s1, Some er)
         | None \<Rightarrow>
             (let s2 = addAgeField (backfill_fault b) (fst s1)
              in case snd s2 of
                   Some er \<Rightarrow> (fst s2, Some er)
                 | None \<Rightarrow>
                     (let exampleUser = \<lparr>ID = NilObjectID, Name = ''John Doe'',
                            Email = ''john.doe@example.com'', Age = 0,
                            CreatedAt = example_created b, UpdatedAt = example_updated b,
                            Version = 0\<rparr>;
                          ins = InsertOne (example_fault b) (example_id b) (fst s2)
                                  (marshal exampleUser)
                      in (fst ins, case snd ins of Inl er \<Rightarrow> Some er | Inr v \<Rightarrow> None))))"

section \<open>Notions and example data for the properties\<close>

text \<open>
  The position of the document that \<open>UpdateOne\<close>, \<open>FindOne\<close> and \<open>DeleteOne\<close>
  act on: the first one, in the store's order, that matches the identifier.
\<close>

definition first_match :: "ObjectID \<Rightarrow> collection \<Rightarrow> nat \<Rightarrow> bool" where
  "first_match i c j =
     (j < length c \<and> matches i (c ! j) \<and> list_all (\<lambda>d. \<not> matches i d) (take j c))"

text \<open>
  The documents that the startup sequence stores, written out: the sample user of
  \<open>createUsersCollection\<close> and the example user of \<open>main\<close>. Neither has an \<open>age\<close>
  element, since the struct's \<open>Age\<close> is zero and tagged \<open>omitempty\<close>.
\<close>

abbreviation seed_doc :: "ObjectID \<Rightarrow> instant \<Rightarrow> instant \<Rightarrow> document" where
  "seed_doc g t1 t2 \<equiv>
     [(''_id'', BObjectID g), (''name'', BString ''John Doe''),
      (''email'', BString ''john.doe@example.com''),
      (''created_at'', BDateTime (toDateTime t1)), (''updated_at'', BDateTime (toDateTime t2)),
      (''version'', BInt 1)]"

abbreviation example_doc :: "ObjectID \<Rightarrow> instant \<Rightarrow> instant \<Rightarrow> document" where
  "example_doc g t1 t2 \<equiv>
     [(''_id'', BObjectID g), (''name'', BString ''John Doe''),
      (''email'', BString ''john.doe@example.com''),
      (''created_at'', BDateTime (toDateTime t1)), (''updated_at'', BDateTime (toDateTime t2)),
      (''version'', BInt 0)]"

text \<open>
  Concrete data for the examples: two well-formed documents, one whose \<open>name\<close> is not a
  string, an environment in which the store call succeeds and one in which it fails, and
  two stand-ins for the library unmarshalers (the first leaves an identifier as it is, the
  second reads every value as the first instant of 1999). The clock of both environments
  shows 1007 milliseconds and 300 nanoseconds.
\<close>

abbreviation doc_Ann :: document where
  "doc_Ann \<equiv> [(''_id'', BObjectID 1), (''name'', BString ''Ann''), (''email'', BString ''a@x'')]"

abbreviation doc_Bob :: document where
  "doc_Bob \<equiv>
     [(''_id'', BObjectID 2), (''name'', BString ''Bob''), (''email'', BString ''b@x''),
      (''age'', BInt 30), (''created_at'', BDateTime 5), (''updated_at'', BDateTime 5),
      (''version'', BInt 0)]"

abbreviation doc_odd :: document where
  "doc_odd \<equiv> [(''_id'', BObjectID 4), (''name'', BBool True), (''email'', BString ''o@x'')]"

abbreviation quiet :: env where
  "quiet \<equiv> \<lparr>fault = None, fresh = 3, clock = 1007000300\<rparr>"

abbreviation failing :: env where
  "failing \<equiv> \<lparr>fault = Some CommandError, fresh = 3, clock = 1007000300\<rparr>"

definition keep_id :: "ObjectID unmarshaler" where
  "keep_id cur j = Inr cur"

definition year_1999 :: "instant unmarshaler" where
  "year_1999 cur j = Inr 915148800000000000"

text \<open>
  A create request that also supplies a creation time, the same request received later,
  200 nanoseconds before the clock is read, the user both decode to, and the document
  stored for it; and the environments of two runs of the startup sequence.
\<close>

abbreviation create_Ann :: request where
  "create_Ann \<equiv>
     \<lparr>query_id = [],
      body = Some (JObject [(''name'', JString ''Ann''), (''email'', JString ''ann@x.com''),
                            (''createdAt'', JString ''1999-01-01T00:00:00Z'')]),
      received = 1000000000\<rparr>"

abbreviation create_Ann_late :: request where
  "create_Ann_late \<equiv>
     \<lparr>query_id = [],
      body = Some (JObject [(''name'', JString ''Ann''), (''email'', JString ''ann@x.com''),
                            (''createdAt'', JString ''1999-01-01T00:00:00Z'')]),
      received = 1007000100\<rparr>"

abbreviation sent_Ann :: User where
  "sent_Ann \<equiv>
     \<lparr>ID = 0, Name = ''Ann'', Email = ''ann@x.com'', Age = 0,
      CreatedAt = 915148800000000000, UpdatedAt = zeroTime, Version = 0\<rparr>"

abbreviation stored_Ann :: document where
  "stored_Ann \<equiv>
     [(''_id'', BObjectID 3), (''name'', BString ''Ann''), (''email'', BString ''ann@x.com''),
      (''created_at'', BDateTime 1007), (''updated_at'', BDateTime 1007), (''version'', BInt 0)]"

abbreviation first_boot :: boot where
  "first_boot \<equiv>
     \<lparr>seed_fault = None, seed_id = 1, seed_created = 10, seed_updated = 11,
      backfill_fault = None,
      example_fault = None, example_id = 2, example_created = 12, example_updated = 13\<rparr>"

abbreviation second_boot :: boot where
  "second_boot \<equiv>
     \<lparr>seed_fault = None, seed_id = 3, seed_created = 20, seed_updated = 21,
      backfill_fault = None,
      example_fault = None, example_id = 4, example_created = 22, example_updated = 23\<rparr>"

section \<open>Facts about the store and the codecs\<close>

lemma update_first_length: "length (fst (update_first P f c)) = length c"
  by (induction c) (simp_all add: Let_def)

lemma update_first_none: "find P c = None \<Longrightarrow> update_first P f c = (c, 0)"
  by (induction c) (simp_all add: Let_def split: if_splits)

lemma delete_first_none: "find P c = None \<Longrightarrow> delete_first P c = (c, 0)"
  by (induction c) (simp_all add: Let_def split: if_splits)

lemma update_first_nth:
  "j < length c \<Longrightarrow>
   fst (update_first P f c) ! j =
     (if P (c ! j) \<and> list_all (\<lambda>d. \<not> P d) (take j c) then f (c ! j) else c ! j)"
proof (induction c arbitrary: j)
  case Nil
  then show ?case by simp
next
  case (Cons d ds)
  show ?case
  proof (cases j)
    case 0
    then show ?thesis by (simp add: Let_def)
  next
    case (Suc k)
    with Cons.prems have "k < length ds" by simp
    from Cons.IH [OF this] Suc show ?thesis by (simp add: Let_def)
  qed
qed

lemma map_of_set_fields2:
  "map_of (set_fields [(k1, v1), (k2, v2)] d) k =
     (if k = k2 then Some v2 else if k = k1 then Some v1 else map_of d k)"
  by (simp add: set_fields_def AList.update_conv')

lemma map_of_age_set: "map_of (set_fields [(''age'', BInt 0)] d) ''age'' = Some (BInt 0)"
  by (simp add: set_fields_def AList.update_conv')

lemma decode_name_members_absent:
  "list_all (\<lambda>kv. \<not> foldEq (fst kv) ''name'') ms \<Longrightarrow> decode_name_members cur ms = Inr cur"
  by (induction ms) simp_all

lemma cursor_loop_map: "cursor_loop ds users = users @ map (\<lambda>d. fst (Decode d)) ds"
  by (induction ds arbitrary: users) simp_all

lemma find_matches_append_new:
  assumes "\<not> list_ex (\<lambda>x. map_of x ''_id'' = Some (BObjectID i)) c"
    and "map_of d ''_id'' = Some (BObjectID i)"
  shows "find (matches i) (c @ [d]) = Some d"
  using assms by (induction c) (simp_all add: matches_def)

subsection \<open>Hexadecimal round trip\<close>

lemma fromHexChar_hexdigit: "d < 16 \<Longrightarrow> fromHexChar (hexdigit d) = Some d"
proof -
  assume "d < 16"
  then have "d \<in> {0,1,2,3,4,5,6,7,8,9,10,11,12,13,14,15}" by auto arith
  then show ?thesis
    by (auto simp add: fromHexChar_def hexdigit_def hextable_def)
qed

lemma hex_decode_append:
  "hex_decode acc (xs @ ys) =
     (case hex_decode acc xs of None \<Rightarrow> None | Some a \<Rightarrow> hex_decode a ys)"
  by (induction xs arbitrary: acc) (simp_all split: option.splits)

lemma length_hex_encode: "length (hex_encode k n) = k"
  by (induction k arbitrary: n) simp_all

lemma hex_decode_encode:
  "hex_decode acc (hex_encode k n) = Some (acc * 16 ^ k + n mod 16 ^ k)"
proof (induction k arbitrary: n)
  case 0
  then show ?case by simp
next
  case (Suc k)
  have d: "fromHexChar (hexdigit (n mod 16)) = Some (n mod 16)"
    by (rule fromHexChar_hexdigit) simp
  have "hex_decode acc (hex_encode (Suc k) n) =
          Some (16 * (acc * 16 ^ k + (n div 16) mod 16 ^ k) + n mod 16)"
    by (simp add: hex_decode_append Suc.IH d)
  also have "16 * (acc * 16 ^ k + (n div 16) mod 16 ^ k) + n mod 16
               = acc * 16 ^ Suc k + n mod 16 ^ Suc k"
    by (simp add: mod_mult2_eq algebra_simps)
  finally show ?case .
qed

lemma ObjectIDFromHex_Hex: "ObjectIDFromHex (Hex i) = (i, None)"
proof -
  have "unat i < 2 ^ 96" using unsigned_less [of i] by simp
  then have "unat i mod 16 ^ 24 = unat i" by simp
  then show ?thesis
    by (simp add: ObjectIDFromHex_def Hex_def length_hex_encode hex_decode_encode)
qed

lemma ObjectIDFromHex_2: "ObjectIDFromHex ''000000000000000000000002'' = (2, None)"
  by (simp add: ObjectIDFromHex_def fromHexChar_def)

lemma ObjectIDFromHex_malformed: "ObjectIDFromHex ''not-an-id'' = (NilObjectID, Some ErrInvalidHex)"
  by (simp add: ObjectIDFromHex_def)

subsection \<open>Marshalling round trip and insertion\<close>

lemma Decode_marshal:
  "Decode (fst (ensureID g (marshal u))) =
     (u\<lparr>ID := (if ID u = NilObjectID then g else ID u),
        CreatedAt := fromDateTime (toDateTime (CreatedAt u)),
        UpdatedAt := fromDateTime (toDateTime (UpdatedAt u))\<rparr>, None)"
  by (cases "ID u = NilObjectID"; cases "Age u = 0")
     (simp_all add: Decode_def marshal_def ensureID_def decode_field_def foldEq_def toLower_def
        zeroUser_def)

lemma map_of_ensureID: "map_of (fst (ensureID g d)) ''_id'' = Some (snd (ensureID g d))"
  by (simp add: ensureID_def split: option.splits)

lemma snd_ensureID_marshal:
  "snd (ensureID g (marshal u)) = BObjectID (if ID u = NilObjectID then g else ID u)"
  by (simp add: ensureID_def marshal_def)

lemma map_of_marshal_times:
  "map_of (fst (ensureID g (marshal u))) ''created_at'' =
     Some (BDateTime (toDateTime (CreatedAt u))) \<and>
   map_of (fst (ensureID g (marshal u))) ''updated_at'' =
     Some (BDateTime (toDateTime (UpdatedAt u)))"
  by (simp add: ensureID_def marshal_def)

section \<open>Update\<close>

lemma decode_updateData_Anne:
  "decode_updateData (Some (JObject [(''name'', JString ''Anne'')])) = Inr ''Anne''"
  by (simp add: decode_updateData_def foldEq_def toLower_def set_string_def)

lemma find_2_in_Ann:
  "find (matches (fst (ObjectIDFromHex ''000000000000000000000002''))) [doc_Ann] = None"
  by (simp add: ObjectIDFromHex_2 matches_def)

lemma first_match_Bob:
  "first_match (fst (ObjectIDFromHex ''000000000000000000000002'')) [doc_Ann, doc_Bob] (Suc 0)"
  by (simp add: first_match_def ObjectIDFromHex_2 matches_def)

lemma updateUser_204:
  assumes "updateUser e c r = (c', resp)" and "status resp = 204"
  shows "\<exists>name. decode_updateData (body r) = Inr name \<and> fault e = None \<and>
     c' = fst (update_first (matches (fst (ObjectIDFromHex (query_id r))))
            (set_fields [(''name'', BString name), (''updated_at'', BDateTime (toDateTime (time_Now e)))]) c)"
  using assms
  by (cases "fault e"; cases "decode_updateData (body r)")
     (auto simp add: updateUser_def UpdateOne_def Let_def)

text \<open>
  C1, as the specification states it: an update whose identifier matches no document
  fails with a store error and answers 500. The handler does not do that. \<open>UpdateOne\<close>
  reports the number of documents it matched in its result, which the handler discards,
  and zero matches are not an error. Here the collection holds one document with
  identifier 1, the request names identifier 2, and the answer is 204, not 500.
\<close>

theorem updateUser_unmatched_counterexample:
  "find (matches (fst (ObjectIDFromHex ''000000000000000000000002''))) [doc_Ann] = None \<and>
   status (snd (updateUser quiet [doc_Ann]
     \<lparr>query_id = ''000000000000000000000002'',
      body = Some (JObject [(''name'', JString ''Anne'')]), received = 1000000000\<rparr>)) = 204"
  by (simp add: updateUser_def UpdateOne_def Let_def ObjectIDFromHex_2 matches_def
        decode_updateData_Anne)

text \<open>
  C1, amended: an update whose identifier matches no document and whose body decodes
  leaves the collection as it was and answers 204 with an empty body when the store call
  returns no error; it answers 500 exactly when the store call itself fails.
\<close>

theorem updateUser_unmatched:
  assumes "find (matches (fst (ObjectIDFromHex (query_id r)))) c = None"
    and "decode_updateData (body r) = Inr name"
  shows "updateUser e c r =
     (c, case fault e of
           None \<Rightarrow> \<lparr>status = 204, payload = NoBody\<rparr>
         | Some er \<Rightarrow> \<lparr>status = 500, payload = ErrorText er\<rparr>)"
  using assms
  by (cases "fault e") (simp_all add: updateUser_def UpdateOne_def Let_def update_first_none)

theorem updateUser_unmatched_witness:
  "find (matches (fst (ObjectIDFromHex ''000000000000000000000002''))) [doc_Ann] = None \<and>
   decode_updateData (Some (JObject [(''name'', JString ''Anne'')])) = Inr ''Anne'' \<and>
   updateUser quiet [doc_Ann]
     \<lparr>query_id = ''000000000000000000000002'',
      body = Some (JObject [(''name'', JString ''Anne'')]), received = 1000000000\<rparr>
   = ([doc_Ann], \<lparr>status = 204, payload = NoBody\<rparr>) \<and>
   updateUser failing [doc_Ann]
     \<lparr>query_id = ''000000000000000000000002'',
      body = Some (JObject [(''name'', JString ''Anne'')]), received = 1000000000\<rparr>
   = ([doc_Ann], \<lparr>status = 500, payload = ErrorText CommandError\<rparr>)"
  using updateUser_unmatched [of "\<lparr>query_id = ''000000000000000000000002'',
      body = Some (JObject [(''name'', JString ''Anne'')]), received = 1000000000\<rparr>"
      "[doc_Ann]" "''Anne''" quiet]
    updateUser_unmatched [of "\<lparr>query_id = ''000000000000000000000002'',
      body = Some (JObject [(''name'', JString ''Anne'')]), received = 1000000000\<rparr>"
      "[doc_Ann]" "''Anne''" failing]
    find_2_in_Ann decode_updateData_Anne
  by simp

text \<open>
  C6: when an update answers 204, the collection keeps its length, a document that
  differs from what it was is the first one matching the identifier, and in every
  document every field other than \<open>name\<close> and \<open>updated_at\<close> has the value it had; so
  \<open>email\<close>, \<open>age\<close>, \<open>version\<close> and \<open>created_at\<close> are untouched and no other document
  is modified.
\<close>

theorem updateUser_frame:
  assumes "updateUser e c r = (c', resp)" and "status resp = 204"
  shows "length c' = length c \<and>
    (\<forall>j<length c.
       (c' ! j \<noteq> c ! j \<longrightarrow> first_match (fst (ObjectIDFromHex (query_id r))) c j) \<and>
       (\<forall>k. k \<noteq> ''name'' \<and> k \<noteq> ''updated_at'' \<longrightarrow> map_of (c' ! j) k = map_of (c ! j) k) \<and>
       map_of (c' ! j) ''email'' = map_of (c ! j) ''email'' \<and>
       map_of (c' ! j) ''age'' = map_of (c ! j) ''age'' \<and>
       map_of (c' ! j) ''version'' = map_of (c ! j) ''version'' \<and>
       map_of (c' ! j) ''created_at'' = map_of (c ! j) ''created_at'')"
proof -
  from updateUser_204 [OF assms] obtain name where
    c': "c' = fst (update_first (matches (fst (ObjectIDFromHex (query_id r))))
            (set_fields [(''name'', BString name), (''updated_at'', BDateTime (toDateTime (time_Now e)))]) c)"
    by blast
  have len: "length c' = length c" by (simp add: c' update_first_length)
  have "\<And>j. j < length c \<Longrightarrow>
       (c' ! j \<noteq> c ! j \<longrightarrow> first_match (fst (ObjectIDFromHex (query_id r))) c j) \<and>
       (\<forall>k. k \<noteq> ''name'' \<and> k \<noteq> ''updated_at'' \<longrightarrow> map_of (c' ! j) k = map_of (c ! j) k)"
    by (simp add: c' update_first_nth first_match_def map_of_set_fields2)
  with len show ?thesis by simp
qed

theorem updateUser_frame_witness:
  "updateUser quiet [doc_Ann, doc_Bob]
     \<lparr>query_id = ''000000000000000000000002'',
      body = Some (JObject [(''name'', JString ''Anne'')]), received = 1000000000\<rparr>
   = ([doc_Ann,
       [(''_id'', BObjectID 2), (''name'', BString ''Anne''), (''email'', BString ''b@x''),
        (''age'', BInt 30), (''created_at'', BDateTime 5), (''updated_at'', BDateTime 1007),
        (''version'', BInt 0)]],
      \<lparr>status = 204, payload = NoBody\<rparr>) \<and>
   status \<lparr>status = 204, payload = NoBody\<rparr> = 204 \<and>
   first_match (fst (ObjectIDFromHex ''000000000000000000000002'')) [doc_Ann, doc_Bob] 1"
proof -
  have ev: "updateUser quiet [doc_Ann, doc_Bob]
     \<lparr>query_id = ''000000000000000000000002'',
      body = Some (JObject [(''name'', JString ''Anne'')]), received = 1000000000\<rparr>
   = ([doc_Ann,
       [(''_id'', BObjectID 2), (''name'', BString ''Anne''), (''email'', BString ''b@x''),
        (''age'', BInt 30), (''created_at'', BDateTime 5), (''updated_at'', BDateTime 1007),
        (''version'', BInt 0)]],
      \<lparr>status = 204, payload = NoBody\<rparr>)"
    by (simp add: updateUser_def UpdateOne_def Let_def ObjectIDFromHex_2 matches_def
        decode_updateData_Anne set_fields_def time_Now_def toDateTime_def)
  have h2: "status \<lparr>status = 204, payload = NoBody\<rparr> = 204" by simp
  from updateUser_frame [OF ev h2]
  have "first_match (fst (ObjectIDFromHex ''000000000000000000000002'')) [doc_Ann, doc_Bob] 1"
    by simp
  with ev show ?thesis by simp
qed

text \<open>
  C10: a body that is a JSON object without a \<open>name\<close> member is not rejected. It decodes
  to the empty name, and when the store call does not fail the handler answers 204 and
  the matched document has the empty string as its \<open>name\<close> and the handler's reading of
  the clock as its \<open>updated_at\<close>.
\<close>

theorem updateUser_missing_name:
  assumes "body r = Some (JObject ms)"
    and "list_all (\<lambda>kv. \<not> foldEq (fst kv) ''name'') ms"
    and "fault e = None"
  shows "decode_updateData (body r) = Inr [] \<and>
    snd (updateUser e c r) = \<lparr>status = 204, payload = NoBody\<rparr> \<and>
    (\<forall>j. first_match (fst (ObjectIDFromHex (query_id r))) c j \<longrightarrow>
       map_of (fst (updateUser e c r) ! j) ''name'' = Some (BString []) \<and>
       map_of (fst (updateUser e c r) ! j) ''updated_at'' =
         Some (BDateTime (toDateTime (time_Now e))))"
proof -
  have d: "decode_updateData (body r) = Inr []"
    using assms(1,2) by (simp add: decode_updateData_def decode_name_members_absent)
  show ?thesis
    using assms(3) d
    by (simp add: updateUser_def UpdateOne_def Let_def update_first_nth first_match_def
          map_of_set_fields2)
qed

theorem updateUser_missing_name_witness:
  "list_all (\<lambda>kv. \<not> foldEq (fst kv) ''name'') [] \<and>
   first_match (fst (ObjectIDFromHex ''000000000000000000000002'')) [doc_Ann, doc_Bob] (Suc 0) \<and>
   snd (updateUser quiet [doc_Ann, doc_Bob]
     \<lparr>query_id = ''000000000000000000000002'', body = Some (JObject []), received = 1000000000\<rparr>)
   = \<lparr>status = 204, payload = NoBody\<rparr> \<and>
   map_of (fst (updateUser quiet [doc_Ann, doc_Bob]
     \<lparr>query_id = ''000000000000000000000002'', body = Some (JObject []), received = 1000000000\<rparr>)
       ! Suc 0) ''name'' = Some (BString []) \<and>
   map_of (fst (updateUser quiet [doc_Ann, doc_Bob]
     \<lparr>query_id = ''000000000000000000000002'', body = Some (JObject []), received = 1000000000\<rparr>)
       ! Suc 0) ''updated_at'' = Some (BDateTime 1007)"
  using updateUser_missing_name [of
      "\<lparr>query_id = ''000000000000000000000002'', body = Some (JObject []), received = 1000000000\<rparr>"
      "[]" quiet "[doc_Ann, doc_Bob]"]
    first_match_Bob
  by (simp add: time_Now_def toDateTime_def)

section \<open>Delete\<close>

text \<open>
  C7: the delete handler answers 500 exactly when the store's delete call itself fails.
  Otherwise it answers 204 with an empty body, and this also when no document matched
  the identifier, in which case the collection is left as it was.
\<close>

theorem deleteUser_zero_match_is_success:
  "(status (snd (deleteUser e c r)) = 500 \<longleftrightarrow> fault e \<noteq> None) \<and>
   (fault e = None \<longrightarrow> snd (deleteUser e c r) = \<lparr>status = 204, payload = NoBody\<rparr>) \<and>
   (fault e = None \<longrightarrow> find (matches (fst (ObjectIDFromHex (query_id r)))) c = None \<longrightarrow>
      deleteUser e c r = (c, \<lparr>status = 204, payload = NoBody\<rparr>))"
  by (cases "fault e") (simp_all add: deleteUser_def DeleteOne_def Let_def delete_first_none)

theorem deleteUser_zero_match_is_success_witness:
  "find (matches (fst (ObjectIDFromHex ''000000000000000000000002''))) [doc_Ann] = None \<and>
   deleteUser quiet [doc_Ann]
     \<lparr>query_id = ''000000000000000000000002'', body = None, received = 1000000000\<rparr>
   = ([doc_Ann], \<lparr>status = 204, payload = NoBody\<rparr>) \<and>
   status (snd (deleteUser failing [doc_Ann]
     \<lparr>query_id = ''000000000000000000000002'', body = None, received = 1000000000\<rparr>)) = 500"
  using deleteUser_zero_match_is_success [of quiet "[doc_Ann]"
      "\<lparr>query_id = ''000000000000000000000002'', body = None, received = 1000000000\<rparr>"]
    deleteUser_zero_match_is_success [of failing "[doc_Ann]"
      "\<lparr>query_id = ''000000000000000000000002'', body = None, received = 1000000000\<rparr>"]
    find_2_in_Ann
  by simp

section \<open>Create\<close>

lemma createUser_200:
  assumes "decode_User um_id um_time (body r) = Inr u"
    and "createUser um_id um_time e c r = (c', resp)"
    and "status resp = 200"
  shows "c' = c @ [fst (ensureID (fresh e)
                    (marshal (u\<lparr>CreatedAt := time_Now e, UpdatedAt := time_Now e\<rparr>)))] \<and>
         resp = \<lparr>status = 200,
                 payload = InsertOneResult (BObjectID (if ID u = NilObjectID then fresh e else ID u))\<rparr> \<and>
         \<not> list_ex (\<lambda>x. map_of x ''_id'' =
                Some (BObjectID (if ID u = NilObjectID then fresh e else ID u))) c"
proof (cases "fault e")
  case None
  let ?u = "u\<lparr>CreatedAt := time_Now e, UpdatedAt := time_Now e\<rparr>"
  have s: "snd (ensureID (fresh e) (marshal ?u)) =
             BObjectID (if ID u = NilObjectID then fresh e else ID u)"
    by (simp add: snd_ensureID_marshal)
  show ?thesis
  proof (cases "list_ex (\<lambda>x. map_of x ''_id'' = Some (snd (ensureID (fresh e) (marshal ?u)))) c")
    case True
    with assms None show ?thesis
      by (auto simp add: createUser_def InsertOne_def Let_def)
  next
    case False
    with assms None have "c' = c @ [fst (ensureID (fresh e) (marshal ?u))] \<and>
        resp = \<lparr>status = 200, payload = InsertOneResult (snd (ensureID (fresh e) (marshal ?u)))\<rparr>"
      by (auto simp add: createUser_def InsertOne_def Let_def)
    with False s show ?thesis by simp
  qed
next
  case (Some er)
  with assms show ?thesis
    by (auto simp add: createUser_def InsertOne_def Let_def)
qed

lemma decode_create_Ann: "decode_User keep_id year_1999 (body create_Ann) = Inr sent_Ann"
  by (simp add: decode_User_def decode_member_def foldEq_def toLower_def set_string_def
        zeroUser_def NilObjectID_def keep_id_def year_1999_def Let_def)

lemma createUser_Ann:
  "createUser keep_id year_1999 quiet [doc_Bob] create_Ann =
     ([doc_Bob, stored_Ann], \<lparr>status = 200, payload = InsertOneResult (BObjectID 3)\<rparr>)"
  using decode_create_Ann
  by (simp add: createUser_def InsertOne_def ensureID_def marshal_def time_Now_def
        toDateTime_def NilObjectID_def Let_def)

text \<open>
  C4, as the specification states it: the stored \<open>created_at\<close> and \<open>updated_at\<close>
  are at or after the instant the request was received. The handler reads the clock in
  nanoseconds and the store keeps milliseconds, so what is stored is the start of the
  millisecond in which the clock was read, and that can lie before the receipt. Here the
  request is received 100 nanoseconds into millisecond 1007, the clock is read 200
  nanoseconds later, and the stored date is millisecond 1007, before the receipt.
\<close>

theorem createUser_timestamps_counterexample:
  "createUser keep_id year_1999 quiet [doc_Bob] create_Ann_late =
     ([doc_Bob, stored_Ann], \<lparr>status = 200, payload = InsertOneResult (BObjectID 3)\<rparr>) \<and>
   received create_Ann_late \<le> time_Now quiet \<and>
   map_of stored_Ann ''created_at'' = Some (BDateTime 1007) \<and>
   fromDateTime 1007 < received create_Ann_late"
  by (simp add: createUser_def decode_User_def decode_member_def foldEq_def toLower_def
        set_string_def zeroUser_def InsertOne_def ensureID_def marshal_def time_Now_def
        toDateTime_def fromDateTime_def NilObjectID_def keep_id_def year_1999_def Let_def)

text \<open>
  C4, amended: when the body of a create request decodes and the handler answers 200, the
  collection has grown by exactly one document, the decoded user with both timestamps
  replaced by the handler's single reading of the clock. Its \<open>created_at\<close> and
  \<open>updated_at\<close> are both that reading cut to the millisecond, whatever the body held for
  them. When the clock did not run backwards between the receipt and the reading, the
  stored date is not before the millisecond of the receipt, so it is less than one
  millisecond before the receipt.
\<close>

theorem createUser_timestamps:
  assumes "decode_User um_id um_time (body r) = Inr u"
    and "createUser um_id um_time e c r = (c', resp)"
    and "status resp = 200"
    and "received r \<le> time_Now e"
  shows "c' = c @ [fst (ensureID (fresh e)
                    (marshal (u\<lparr>CreatedAt := time_Now e, UpdatedAt := time_Now e\<rparr>)))] \<and>
         map_of (last c') ''created_at'' = Some (BDateTime (toDateTime (time_Now e))) \<and>
         map_of (last c') ''updated_at'' = Some (BDateTime (toDateTime (time_Now e))) \<and>
         toDateTime (received r) \<le> toDateTime (time_Now e) \<and>
         received r - 1000000 < fromDateTime (toDateTime (time_Now e))"
proof -
  from createUser_200 [OF assms(1,2,3)]
  have c': "c' = c @ [fst (ensureID (fresh e)
                    (marshal (u\<lparr>CreatedAt := time_Now e, UpdatedAt := time_Now e\<rparr>)))]"
    by simp
  from assms(4) have m: "toDateTime (received r) \<le> toDateTime (time_Now e)"
    unfolding toDateTime_def by (rule zdiv_mono1) simp
  have "time_Now e - 1000000 < fromDateTime (toDateTime (time_Now e))"
    unfolding toDateTime_def fromDateTime_def by presburger
  with assms(4) have l: "received r - 1000000 < fromDateTime (toDateTime (time_Now e))"
    by simp
  from c' m l show ?thesis by (simp add: map_of_marshal_times)
qed

theorem createUser_timestamps_witness:
  "decode_User keep_id year_1999 (body create_Ann) = Inr sent_Ann \<and>
   createUser keep_id year_1999 quiet [doc_Bob] create_Ann =
     ([doc_Bob, stored_Ann], \<lparr>status = 200, payload = InsertOneResult (BObjectID 3)\<rparr>) \<and>
   received create_Ann \<le> time_Now quiet \<and>
   CreatedAt sent_Ann = 915148800000000000 \<and>
   map_of (last [doc_Bob, stored_Ann]) ''created_at'' = Some (BDateTime 1007) \<and>
   map_of (last [doc_Bob, stored_Ann]) ''updated_at'' = Some (BDateTime 1007) \<and>
   toDateTime (received create_Ann) \<le> 1007"
proof -
  have h3: "status \<lparr>status = 200, payload = InsertOneResult (BObjectID 3)\<rparr> = 200" by simp
  have h4: "received create_Ann \<le> time_Now quiet" by (simp add: time_Now_def)
  from createUser_timestamps [OF decode_create_Ann createUser_Ann h3 h4]
  have "map_of (last [doc_Bob, stored_Ann]) ''created_at'' =
          Some (BDateTime (toDateTime (time_Now quiet))) \<and>
        map_of (last [doc_Bob, stored_Ann]) ''updated_at'' =
          Some (BDateTime (toDateTime (time_Now quiet))) \<and>
        toDateTime (received create_Ann) \<le> toDateTime (time_Now quiet)"
    by blast
  then show ?thesis
    using decode_create_Ann createUser_Ann h4 by (simp add: time_Now_def toDateTime_def)
qed

text \<open>
  C8: when the body of a create request decodes, the handler answers 200 and its
  acknowledgment carries the identifier \<open>i\<close>, then reading by the hexadecimal form of
  \<open>i\<close>, with no fault of the store, answers 200 with the user that was sent: the same
  \<open>Name\<close>, \<open>Email\<close>, \<open>Age\<close> and \<open>Version\<close>, the identifier \<open>i\<close>, and the two
  timestamps the server set, as the store keeps them.
\<close>

theorem create_then_read:
  assumes "decode_User um_id um_time (body r) = Inr u"
    and "createUser um_id um_time e c r = (c', resp)"
    and "status resp = 200"
    and "payload resp = InsertOneResult (BObjectID i)"
    and "fault e' = None"
    and "query_id r' = Hex i"
  shows "getUserByID e' c' r' =
    \<lparr>status = 200,
     payload = UserJSON (u\<lparr>ID := i,
                           CreatedAt := fromDateTime (toDateTime (time_Now e)),
                           UpdatedAt := fromDateTime (toDateTime (time_Now e))\<rparr>)\<rparr>"
proof -
  let ?u = "u\<lparr>CreatedAt := time_Now e, UpdatedAt := time_Now e\<rparr>"
  let ?d = "fst (ensureID (fresh e) (marshal ?u))"
  from createUser_200 [OF assms(1,2,3)] assms(4)
  have c': "c' = c @ [?d]"
    and i: "i = (if ID u = NilObjectID then fresh e else ID u)"
    and new: "\<not> list_ex (\<lambda>x. map_of x ''_id'' = Some (BObjectID i)) c"
    by auto
  have "map_of ?d ''_id'' = Some (BObjectID i)"
    by (simp add: map_of_ensureID snd_ensureID_marshal i)
  with new have f: "find (matches i) c' = Some ?d"
    unfolding c' by (rule find_matches_append_new)
  have dec: "Decode ?d = (u\<lparr>ID := i,
                            CreatedAt := fromDateTime (toDateTime (time_Now e)),
                            UpdatedAt := fromDateTime (toDateTime (time_Now e))\<rparr>, None)"
    by (simp add: Decode_marshal i)
  show ?thesis
    using assms(5,6) f dec
    by (simp add: getUserByID_def ObjectIDFromHex_Hex FindOne_def SingleResult_Decode_def Let_def)
qed

theorem create_then_read_witness:
  "decode_User keep_id year_1999 (body create_Ann) = Inr sent_Ann \<and>
   createUser keep_id year_1999 quiet [doc_Bob] create_Ann =
     ([doc_Bob, stored_Ann], \<lparr>status = 200, payload = InsertOneResult (BObjectID 3)\<rparr>) \<and>
   getUserByID quiet [doc_Bob, stored_Ann] \<lparr>query_id = Hex 3, body = None, received = 2000000000\<rparr> =
     \<lparr>status = 200,
      payload = UserJSON \<lparr>ID = 3, Name = ''Ann'', Email = ''ann@x.com'', Age = 0,
                  CreatedAt = 1007000000, UpdatedAt = 1007000000, Version = 0\<rparr>\<rparr>"
proof -
  have h3: "status \<lparr>status = 200, payload = InsertOneResult (BObjectID 3)\<rparr> = 200" by simp
  have h4: "payload \<lparr>status = 200, payload = InsertOneResult (BObjectID 3)\<rparr> =
              InsertOneResult (BObjectID 3)" by simp
  have h5: "fault quiet = None" by simp
  have h6: "query_id \<lparr>query_id = Hex 3, body = None, received = 2000000000\<rparr> = Hex 3" by simp
  from create_then_read [OF decode_create_Ann createUser_Ann h3 h4 h5 h6]
  show ?thesis
    using decode_create_Ann createUser_Ann
    by (simp add: time_Now_def toDateTime_def fromDateTime_def)
qed

section \<open>Read by identifier\<close>

text \<open>
  C5: an identifier that does not parse makes the handler look up the zero identifier;
  nothing is answered for the parse error itself. The handler answers 404 exactly when
  the lookup statement \<open>FindOne(...).Decode(&user)\<close> returns an error, which is when the
  store call fails, when no document matches, or when the matched document does not
  decode; all of them give the same status. Otherwise it answers 200 with the decoded
  first matching document.
\<close>

theorem getUserByID_outcomes:
  "(snd (ObjectIDFromHex (query_id r)) \<noteq> None \<longrightarrow>
      fst (ObjectIDFromHex (query_id r)) = NilObjectID \<and>
      getUserByID e c r =
        (case snd (SingleResult_Decode (FindOne (fault e) c NilObjectID)) of
           Some er \<Rightarrow> \<lparr>status = 404, payload = ErrorText er\<rparr>
         | None \<Rightarrow> \<lparr>status = 200,
                    payload = UserJSON (fst (SingleResult_Decode (FindOne (fault e) c NilObjectID)))\<rparr>)) \<and>
   (status (getUserByID e c r) = 404 \<longleftrightarrow>
      fault e \<noteq> None \<or>
      find (matches (fst (ObjectIDFromHex (query_id r)))) c = None \<or>
      (\<exists>d. find (matches (fst (ObjectIDFromHex (query_id r)))) c = Some d \<and>
           snd (Decode d) \<noteq> None)) \<and>
   (status (getUserByID e c r) \<noteq> 404 \<longrightarrow>
      (\<exists>d. find (matches (fst (ObjectIDFromHex (query_id r)))) c = Some d \<and>
           getUserByID e c r = \<lparr>status = 200, payload = UserJSON (fst (Decode d))\<rparr>))"
proof -
  have a: "snd (ObjectIDFromHex (query_id r)) \<noteq> None \<longrightarrow>
      fst (ObjectIDFromHex (query_id r)) = NilObjectID"
    by (simp add: ObjectIDFromHex_def split: option.splits)
  have b: "status (getUserByID e c r) = 404 \<longleftrightarrow>
      fault e \<noteq> None \<or>
      find (matches (fst (ObjectIDFromHex (query_id r)))) c = None \<or>
      (\<exists>d. find (matches (fst (ObjectIDFromHex (query_id r)))) c = Some d \<and>
           snd (Decode d) \<noteq> None)"
    by (cases "fault e"; cases "find (matches (fst (ObjectIDFromHex (query_id r)))) c")
       (auto simp add: getUserByID_def FindOne_def SingleResult_Decode_def Let_def
          split: option.splits)
  have c: "status (getUserByID e c r) \<noteq> 404 \<longrightarrow>
      (\<exists>d. find (matches (fst (ObjectIDFromHex (query_id r)))) c = Some d \<and>
           getUserByID e c r = \<lparr>status = 200, payload = UserJSON (fst (Decode d))\<rparr>)"
    by (cases "fault e"; cases "find (matches (fst (ObjectIDFromHex (query_id r)))) c")
       (auto simp add: getUserByID_def FindOne_def SingleResult_Decode_def Let_def
          split: option.splits)
  from a b c show ?thesis
    by (auto simp add: getUserByID_def Let_def)
qed

lemma Decode_doc_Bob:
  "Decode doc_Bob = (\<lparr>ID = 2, Name = ''Bob'', Email = ''b@x'', Age = 30,
                       CreatedAt = 5000000, UpdatedAt = 5000000, Version = 0\<rparr>, None)"
  by (simp add: Decode_def decode_field_def foldEq_def toLower_def zeroUser_def fromDateTime_def)

lemma Decode_doc_Ann:
  "Decode doc_Ann = (\<lparr>ID = 1, Name = ''Ann'', Email = ''a@x'', Age = 0,
                       CreatedAt = zeroTime, UpdatedAt = zeroTime, Version = 0\<rparr>, None)"
  by (simp add: Decode_def decode_field_def foldEq_def toLower_def zeroUser_def fromDateTime_def)

lemma Decode_doc_odd:
  "Decode doc_odd = (\<lparr>ID = 4, Name = [], Email = [], Age = 0,
                       CreatedAt = zeroTime, UpdatedAt = zeroTime, Version = 0\<rparr>,
                     Some BSONDecodeError)"
  by (simp add: Decode_def decode_field_def foldEq_def toLower_def zeroUser_def fromDateTime_def)

theorem getUserByID_outcomes_witness:
  "snd (ObjectIDFromHex ''not-an-id'') \<noteq> None \<and>
   getUserByID quiet [doc_Ann, doc_Bob] \<lparr>query_id = ''not-an-id'', body = None, received = 1000000000\<rparr> =
     \<lparr>status = 404, payload = ErrorText ErrNoDocuments\<rparr> \<and>
   status (getUserByID failing [doc_Ann, doc_Bob]
     \<lparr>query_id = ''000000000000000000000002'', body = None, received = 1000000000\<rparr>) = 404 \<and>
   getUserByID quiet [doc_Ann, doc_Bob]
     \<lparr>query_id = ''000000000000000000000002'', body = None, received = 1000000000\<rparr> =
     \<lparr>status = 200,
      payload = UserJSON \<lparr>ID = 2, Name = ''Bob'', Email = ''b@x'', Age = 30,
                  CreatedAt = 5000000, UpdatedAt = 5000000, Version = 0\<rparr>\<rparr>"
proof -
  have p: "snd (ObjectIDFromHex ''not-an-id'') \<noteq> None"
    by (simp add: ObjectIDFromHex_malformed)
  have n: "FindOne None [doc_Ann, doc_Bob] NilObjectID = Inl ErrNoDocuments"
    by (simp add: FindOne_def matches_def NilObjectID_def)
  have f: "find (matches (fst (ObjectIDFromHex ''000000000000000000000002''))) [doc_Ann, doc_Bob]
             = Some doc_Bob"
    by (simp add: ObjectIDFromHex_2 matches_def)
  from getUserByID_outcomes [of
      "\<lparr>query_id = ''not-an-id'', body = None, received = 1000000000\<rparr>" quiet "[doc_Ann, doc_Bob]"] p n
  have 1: "getUserByID quiet [doc_Ann, doc_Bob]
             \<lparr>query_id = ''not-an-id'', body = None, received = 1000000000\<rparr> =
           \<lparr>status = 404, payload = ErrorText ErrNoDocuments\<rparr>"
    by (simp add: SingleResult_Decode_def)
  from getUserByID_outcomes [of
      "\<lparr>query_id = ''000000000000000000000002'', body = None, received = 1000000000\<rparr>"
      failing "[doc_Ann, doc_Bob]"]
  have 2: "status (getUserByID failing [doc_Ann, doc_Bob]
     \<lparr>query_id = ''000000000000000000000002'', body = None, received = 1000000000\<rparr>) = 404"
    by simp
  from getUserByID_outcomes [of
      "\<lparr>query_id = ''000000000000000000000002'', body = None, received = 1000000000\<rparr>"
      quiet "[doc_Ann, doc_Bob]"] f Decode_doc_Bob
  have 3: "getUserByID quiet [doc_Ann, doc_Bob]
     \<lparr>query_id = ''000000000000000000000002'', body = None, received = 1000000000\<rparr> =
     \<lparr>status = 200,
      payload = UserJSON \<lparr>ID = 2, Name = ''Bob'', Email = ''b@x'', Age = 30,
                  CreatedAt = 5000000, UpdatedAt = 5000000, Version = 0\<rparr>\<rparr>"
    by simp
  from p 1 2 3 show ?thesis by simp
qed

section \<open>List all\<close>

text \<open>
  C2, as the specification states it: a document that fails to decode is left out of the
  list. The loop does not do that. It drops the error of \<open>cursor.Decode\<close> and appends
  \<open>user\<close> in every iteration, so the list has an entry for the failing document too:
  the struct as decoding left it. Here the only document has a boolean as its \<open>name\<close>;
  decoding it fails, and the list still has one entry.
\<close>

theorem getAllUsers_omits_counterexample:
  "snd (Decode doc_odd) = Some BSONDecodeError \<and>
   getAllUsers quiet [doc_odd] \<lparr>query_id = [], body = None, received = 1000000000\<rparr> =
     \<lparr>status = 200,
      payload = UsersJSON [\<lparr>ID = 4, Name = [], Email = [], Age = 0,
                   CreatedAt = zeroTime, UpdatedAt = zeroTime, Version = 0\<rparr>]\<rparr>"
  by (simp add: getAllUsers_def Find_def Decode_doc_odd)

text \<open>
  C2, amended: when the cursor opens, list-all answers 200 and surfaces no error, and the
  list has exactly one entry for each document of the collection, in the collection's
  order. The entry of a document that decodes is the decoded document; the entry of a
  document that fails to decode is the struct holding the fields decoded before the
  failure and zero values for the rest.
\<close>

theorem getAllUsers_keeps_every_document:
  assumes "fault e = None"
  shows "\<exists>users. getAllUsers e c r = \<lparr>status = 200, payload = UsersJSON users\<rparr> \<and>
           length users = length c \<and>
           (\<forall>j<length c. users ! j = fst (Decode (c ! j)))"
  using assms by (simp add: getAllUsers_def Find_def cursor_loop_map)

theorem getAllUsers_keeps_every_document_witness:
  "fault quiet = None \<and>
   getAllUsers quiet [doc_Bob, doc_odd] \<lparr>query_id = [], body = None, received = 1000000000\<rparr> =
     \<lparr>status = 200,
      payload = UsersJSON
        [\<lparr>ID = 2, Name = ''Bob'', Email = ''b@x'', Age = 30,
           CreatedAt = 5000000, UpdatedAt = 5000000, Version = 0\<rparr>,
         \<lparr>ID = 4, Name = [], Email = [], Age = 0,
           CreatedAt = zeroTime, UpdatedAt = zeroTime, Version = 0\<rparr>]\<rparr>"
proof -
  have h: "fault quiet = None" by simp
  from getAllUsers_keeps_every_document [OF h, of "[doc_Bob, doc_odd]"
      "\<lparr>query_id = [], body = None, received = 1000000000\<rparr>"]
  obtain users where
    g: "getAllUsers quiet [doc_Bob, doc_odd] \<lparr>query_id = [], body = None, received = 1000000000\<rparr> =
          \<lparr>status = 200, payload = UsersJSON users\<rparr>"
    and l: "length users = length [doc_Bob, doc_odd]"
    and n: "\<forall>j<length [doc_Bob, doc_odd]. users ! j = fst (Decode ([doc_Bob, doc_odd] ! j))"
    by blast
  have "\<And>us cs. length us = length cs \<Longrightarrow>
          \<forall>j<length cs. us ! j = fst (Decode (cs ! j)) \<Longrightarrow>
          us = map (\<lambda>d. fst (Decode d)) cs"
    by (simp add: list_eq_iff_nth_eq)
  from this [OF l n] have "users = map (\<lambda>d. fst (Decode d)) [doc_Bob, doc_odd]" .
  with g show ?thesis by (simp add: Decode_doc_Bob Decode_doc_odd)
qed

section \<open>Startup\<close>

lemma createUsersCollection_None:
  "createUsersCollection None g t1 t2 c =
     (if list_ex (\<lambda>x. map_of x ''_id'' = Some (BObjectID g)) c
      then (c, Some DuplicateKeyError)
      else (c @ [seed_doc g t1 t2], None))"
  by (simp add: createUsersCollection_def InsertOne_def ensureID_def marshal_def Let_def)

lemma createUsersCollection_ok:
  assumes "createUsersCollection flt g t1 t2 c = (c', None)"
  shows "c' = c @ [seed_doc g t1 t2] \<and>
         \<not> list_ex (\<lambda>x. map_of x ''_id'' = Some (BObjectID g)) c"
proof (cases flt)
  case None
  with assms show ?thesis
    by (simp add: createUsersCollection_None split: if_splits)
next
  case (Some er)
  with assms show ?thesis
    by (simp add: createUsersCollection_def InsertOne_def)
qed

lemma addAgeField_ok:
  assumes "addAgeField flt c = (c', None)"
  shows "c' = map (set_fields [(''age'', BInt 0)]) c"
  using assms by (cases flt) (simp_all add: addAgeField_def UpdateMany_def Let_def)

lemma example_insert_ok:
  assumes "InsertOne flt g c
             (marshal \<lparr>ID = NilObjectID, Name = ''John Doe'',
                Email = ''john.doe@example.com'', Age = 0,
                CreatedAt = t1, UpdatedAt = t2, Version = 0\<rparr>) = (c', Inr v)"
  shows "c' = c @ [example_doc g t1 t2]"
  using assms
  by (cases flt) (auto simp add: InsertOne_def ensureID_def marshal_def Let_def split: if_splits)

lemma main_ok:
  assumes "main b c = (c', None)"
  shows "c' = map (set_fields [(''age'', BInt 0)])
                (c @ [seed_doc (seed_id b) (seed_created b) (seed_updated b)]) @
              [example_doc (example_id b) (example_created b) (example_updated b)] \<and>
         \<not> list_ex (\<lambda>x. map_of x ''_id'' = Some (BObjectID (seed_id b))) c"
proof -
  obtain c1 r1 where s1: "createUsersCollection (seed_fault b) (seed_id b)
                 (seed_created b) (seed_updated b) c = (c1, r1)"
    by (cases "createUsersCollection (seed_fault b) (seed_id b)
                 (seed_created b) (seed_updated b) c")
  obtain c2 r2 where s2: "addAgeField (backfill_fault b) c1 = (c2, r2)"
    by (cases "addAgeField (backfill_fault b) c1")
  obtain c3 r3 where s3: "InsertOne (example_fault b) (example_id b) c2
          (marshal \<lparr>ID = NilObjectID, Name = ''John Doe'',
             Email = ''john.doe@example.com'', Age = 0,
             CreatedAt = example_created b, UpdatedAt = example_updated b,
             Version = 0\<rparr>) = (c3, r3)"
    by (cases "InsertOne (example_fault b) (example_id b) c2
          (marshal \<lparr>ID = NilObjectID, Name = ''John Doe'',
             Email = ''john.doe@example.com'', Age = 0,
             CreatedAt = example_created b, UpdatedAt = example_updated b,
             Version = 0\<rparr>)")
  from assms s1 have r1: "r1 = None"
    by (cases r1) (simp_all add: main_def Let_def)
  from assms s1 s2 r1 have r2: "r2 = None"
    by (cases r2) (simp_all add: main_def Let_def)
  from assms s1 s2 s3 r1 r2 obtain v where r3: "r3 = Inr v" and c3: "c3 = c'"
    by (cases r3) (simp_all add: main_def Let_def)
  from createUsersCollection_ok s1 r1
  have c1: "c1 = c @ [seed_doc (seed_id b) (seed_created b) (seed_updated b)]"
    and new: "\<not> list_ex (\<lambda>x. map_of x ''_id'' = Some (BObjectID (seed_id b))) c"
    by blast+
  from addAgeField_ok s2 r2 have c2: "c2 = map (set_fields [(''age'', BInt 0)]) c1" by simp
  from example_insert_ok s3 r3 c3
  have "c' = c2 @ [example_doc (example_id b) (example_created b) (example_updated b)]"
    by blast
  with c1 c2 new show ?thesis by simp
qed

lemma main_first_boot:
  "main first_boot [] =
     ([seed_doc 1 10 11 @ [(''age'', BInt 0)], example_doc 2 12 13], None)"
  by (simp add: main_def createUsersCollection_None addAgeField_def UpdateMany_def
        InsertOne_def ensureID_def marshal_def set_fields_def Let_def)

lemma main_second_boot:
  "main second_boot [seed_doc 1 10 11 @ [(''age'', BInt 0)], example_doc 2 12 13] =
     ([seed_doc 1 10 11 @ [(''age'', BInt 0)], example_doc 2 12 13 @ [(''age'', BInt 0)],
       seed_doc 3 20 21 @ [(''age'', BInt 0)], example_doc 4 22 23], None)"
  by (simp add: main_def createUsersCollection_None addAgeField_def UpdateMany_def
        InsertOne_def ensureID_def marshal_def set_fields_def Let_def)

text \<open>
  C3, as the specification states it: once the backfill has run, every document, also
  every document the startup sequence inserts, has an \<open>age\<close> field. \<open>main\<close> inserts its
  example user after the backfill, and the struct's zero \<open>Age\<close> is not stored, so that
  document has no \<open>age\<close> field. Here the startup sequence runs on the empty collection.
\<close>

theorem startup_age_counterexample:
  "main first_boot [] =
     ([seed_doc 1 10 11 @ [(''age'', BInt 0)], example_doc 2 12 13], None) \<and>
   map_of (example_doc 2 12 13) ''age'' = None"
  by (simp add: main_first_boot)

text \<open>
  C3, amended: right after the backfill step every document of the collection has an
  \<open>age\<close> field equal to 0. After the whole startup sequence this holds for every
  document that was in the collection when the backfill ran, the seeded sample user
  among them; the example user that \<open>main\<close> inserts afterwards is stored without an
  \<open>age\<close> field.
\<close>

theorem backfill_covers_earlier_documents:
  "(addAgeField flt c = (c1, None) \<longrightarrow>
      length c1 = length c \<and> (\<forall>d\<in>set c1. map_of d ''age'' = Some (BInt 0))) \<and>
   (main b c = (c2, None) \<longrightarrow>
      length c2 = length c + 2 \<and>
      (\<forall>j<length c + 1. map_of (c2 ! j) ''age'' = Some (BInt 0)) \<and>
      map_of (c2 ! (length c + 1)) ''age'' = None)"
proof -
  have a: "addAgeField flt c = (c1, None) \<longrightarrow>
      length c1 = length c \<and> (\<forall>d\<in>set c1. map_of d ''age'' = Some (BInt 0))"
    by (auto dest!: addAgeField_ok simp add: map_of_age_set)
  have b: "main b c = (c2, None) \<longrightarrow>
      length c2 = length c + 2 \<and>
      (\<forall>j<length c + 1. map_of (c2 ! j) ''age'' = Some (BInt 0)) \<and>
      map_of (c2 ! (length c + 1)) ''age'' = None"
  proof
    assume "main b c = (c2, None)"
    from main_ok [OF this] show "length c2 = length c + 2 \<and>
      (\<forall>j<length c + 1. map_of (c2 ! j) ''age'' = Some (BInt 0)) \<and>
      map_of (c2 ! (length c + 1)) ''age'' = None"
      by (simp add: nth_append map_of_age_set del: map_append)
  qed
  from a b show ?thesis by simp
qed

theorem backfill_covers_earlier_documents_witness:
  "addAgeField None [doc_Ann, doc_Bob] =
     ([doc_Ann @ [(''age'', BInt 0)],
       [(''_id'', BObjectID 2), (''name'', BString ''Bob''), (''email'', BString ''b@x''),
        (''age'', BInt 0), (''created_at'', BDateTime 5), (''updated_at'', BDateTime 5),
        (''version'', BInt 0)]], None) \<and>
   main first_boot [] =
     ([seed_doc 1 10 11 @ [(''age'', BInt 0)], example_doc 2 12 13], None) \<and>
   map_of ([seed_doc 1 10 11 @ [(''age'', BInt 0)], example_doc 2 12 13] ! 0) ''age''
     = Some (BInt 0) \<and>
   map_of ([seed_doc 1 10 11 @ [(''age'', BInt 0)], example_doc 2 12 13] ! 1) ''age'' = None"
proof -
  have ev: "addAgeField None [doc_Ann, doc_Bob] =
     ([doc_Ann @ [(''age'', BInt 0)],
       [(''_id'', BObjectID 2), (''name'', BString ''Bob''), (''email'', BString ''b@x''),
        (''age'', BInt 0), (''created_at'', BDateTime 5), (''updated_at'', BDateTime 5),
        (''version'', BInt 0)]], None)"
    by (simp add: addAgeField_def UpdateMany_def set_fields_def Let_def)
  from backfill_covers_earlier_documents [where flt = None and c = "[doc_Ann, doc_Bob]"
      and ?c1.0 = "[doc_Ann @ [(''age'', BInt 0)],
       [(''_id'', BObjectID 2), (''name'', BString ''Bob''), (''email'', BString ''b@x''),
        (''age'', BInt 0), (''created_at'', BDateTime 5), (''updated_at'', BDateTime 5),
        (''version'', BInt 0)]]"]
    backfill_covers_earlier_documents [where b = first_boot and c = "[]"
      and ?c2.0 = "[seed_doc 1 10 11 @ [(''age'', BInt 0)], example_doc 2 12 13]"]
    ev main_first_boot
  show ?thesis by simp
qed

text \<open>
  C9: the seed step does not look at what the collection holds. With a store call that
  does not fail and a generated identifier that is not taken, it appends one sample user
  with \<open>version\<close> 1 and the two readings of the clock as its timestamps. So when the
  startup sequence has run twice, each time to its end, the collection has grown by
  four documents, and two of them are sample users with different identifiers.
\<close>

theorem seed_is_not_idempotent:
  "(\<not> list_ex (\<lambda>x. map_of x ''_id'' = Some (BObjectID g)) c \<longrightarrow>
      createUsersCollection None g t1 t2 c = (c @ [seed_doc g t1 t2], None)) \<and>
   (main b1 c = (c1, None) \<and> main b2 c1 = (c2, None) \<longrightarrow>
      length c2 = length c + 4 \<and>
      c2 ! length c =
        seed_doc (seed_id b1) (seed_created b1) (seed_updated b1) @ [(''age'', BInt 0)] \<and>
      c2 ! (length c + 2) =
        seed_doc (seed_id b2) (seed_created b2) (seed_updated b2) @ [(''age'', BInt 0)] \<and>
      seed_id b1 \<noteq> seed_id b2)"
proof -
  have a: "\<not> list_ex (\<lambda>x. map_of x ''_id'' = Some (BObjectID g)) c \<longrightarrow>
      createUsersCollection None g t1 t2 c = (c @ [seed_doc g t1 t2], None)"
    by (simp add: createUsersCollection_None)
  have b: "main b1 c = (c1, None) \<and> main b2 c1 = (c2, None) \<longrightarrow>
      length c2 = length c + 4 \<and>
      c2 ! length c =
        seed_doc (seed_id b1) (seed_created b1) (seed_updated b1) @ [(''age'', BInt 0)] \<and>
      c2 ! (length c + 2) =
        seed_doc (seed_id b2) (seed_created b2) (seed_updated b2) @ [(''age'', BInt 0)] \<and>
      seed_id b1 \<noteq> seed_id b2"
  proof
    assume h: "main b1 c = (c1, None) \<and> main b2 c1 = (c2, None)"
    let ?sf = "set_fields [(''age'', BInt 0)]"
    let ?s1 = "seed_doc (seed_id b1) (seed_created b1) (seed_updated b1)"
    let ?s2 = "seed_doc (seed_id b2) (seed_created b2) (seed_updated b2)"
    let ?e1 = "example_doc (example_id b1) (example_created b1) (example_updated b1)"
    let ?e2 = "example_doc (example_id b2) (example_created b2) (example_updated b2)"
    from h main_ok [of b1 c c1] have c1: "c1 = map ?sf c @ [?sf ?s1, ?e1]" by simp
    from h main_ok [of b2 c1 c2]
    have c2: "c2 = map ?sf c1 @ [?sf ?s2, ?e2]"
      and new: "\<not> list_ex (\<lambda>x. map_of x ''_id'' = Some (BObjectID (seed_id b2))) c1"
      by simp_all
    have s1: "?sf ?s1 = ?s1 @ [(''age'', BInt 0)]" by (simp add: set_fields_def)
    have s2: "?sf ?s2 = ?s2 @ [(''age'', BInt 0)]" by (simp add: set_fields_def)
    have ss1: "?sf (?s1 @ [(''age'', BInt 0)]) = ?s1 @ [(''age'', BInt 0)]"
      by (simp add: set_fields_def)
    from new have "map_of (?sf ?s1) ''_id'' \<noteq> Some (BObjectID (seed_id b2))"
      unfolding c1 by (simp add: list_ex_iff)
    then have ne: "seed_id b1 \<noteq> seed_id b2" by (simp add: s1)
    have len: "length c2 = length c + 4" by (simp add: c1 c2)
    have n1: "c2 ! length c = ?sf (?sf ?s1)"
      by (simp add: c1 c2 nth_append)
    have n2: "c2 ! (length c + 2) = ?sf ?s2"
      by (simp add: c1 c2 nth_append)
    from len n1 n2 ne show "length c2 = length c + 4 \<and>
      c2 ! length c = ?s1 @ [(''age'', BInt 0)] \<and>
      c2 ! (length c + 2) = ?s2 @ [(''age'', BInt 0)] \<and>
      seed_id b1 \<noteq> seed_id b2"
      by (simp only: s1 s2 ss1) simp
  qed
  from a b show ?thesis by simp
qed

theorem seed_is_not_idempotent_witness:
  "\<not> list_ex (\<lambda>x. map_of x ''_id'' = Some (BObjectID 3)) [seed_doc 1 10 11] \<and>
   createUsersCollection None 3 20 21 [seed_doc 1 10 11] =
     ([seed_doc 1 10 11, seed_doc 3 20 21], None) \<and>
   main first_boot [] =
     ([seed_doc 1 10 11 @ [(''age'', BInt 0)], example_doc 2 12 13], None) \<and>
   main second_boot [seed_doc 1 10 11 @ [(''age'', BInt 0)], example_doc 2 12 13] =
     ([seed_doc 1 10 11 @ [(''age'', BInt 0)], example_doc 2 12 13 @ [(''age'', BInt 0)],
       seed_doc 3 20 21 @ [(''age'', BInt 0)], example_doc 4 22 23], None) \<and>
   seed_id first_boot \<noteq> seed_id second_boot"
proof -
  have h: "\<not> list_ex (\<lambda>x. map_of x ''_id'' = Some (BObjectID 3)) [seed_doc 1 10 11]"
    by simp
  from seed_is_not_idempotent [where g = 3 and c = "[seed_doc 1 10 11]" and ?t1.0 = 20
      and ?t2.0 = 21]
    seed_is_not_idempotent [where ?b1.0 = first_boot and c = "[]"
      and ?c1.0 = "[seed_doc 1 10 11 @ [(''age'', BInt 0)], example_doc 2 12 13]"
      and ?b2.0 = second_boot
      and ?c2.0 = "[seed_doc 1 10 11 @ [(''age'', BInt 0)],
                    example_doc 2 12 13 @ [(''age'', BInt 0)],
                    seed_doc 3 20 21 @ [(''age'', BInt 0)], example_doc 4 22 23]"]
    h main_first_boot main_second_boot
  show ?thesis by simp
qed

end
